theory Spec2Isabelle
  imports Complex_Main "HOL-Library.Multiset" "HOL-Library.AList"
begin

section \<open>Data model of ProductHistory.tsx\<close>

text \<open>
  A JavaScript \<open>number\<close>. The component never computes with the quantities and prices it
  handles: it copies them from a movement into a write. They are modelled as reals. The only
  arithmetic of the file is the subtraction of two \<open>seconds\<close> values in the sort
  comparator; those are whole numbers and are modelled as \<open>int\<close>.
\<close>

type_synonym number = real

datatype js_error = JsError string

text \<open>The \<open>'in' | 'out'\<close> union of \<open>Movement.type\<close>.\<close>

datatype movement_type = Type_in | Type_out

text \<open>
  The value of a \<open>date\<close> field as the comparator reads it: an object with a
  \<open>seconds\<close> property. A \<open>date\<close> that is \<open>null\<close>, \<open>undefined\<close> or has no
  \<open>seconds\<close> is \<open>None\<close> in the records below.
\<close>

record timestamp =
  seconds :: int
  nanoseconds :: int

text \<open>The fields a document of the \<open>productMovements\<close> collection and the record the feed
  makes of it have in common.\<close>

record movement_fields =
  productId :: string
  type_m :: movement_type
  quantity :: number
  price :: number
  totalPrice :: number
  date :: "timestamp option"
  description :: string
  warehouse :: string
  previousQuantity :: number
  newQuantity :: number
  previousAveragePrice :: number
  newAveragePrice :: number
  supplier :: "string option"

text \<open>
  What \<open>doc.data()\<close> returns for a document of the collection: the fields above and,
  when the stored data has a field named \<open>id\<close> of its own, that field (\<open>id_d\<close>). The
  store does not keep the document id in the data, and does not forbid a field of that name.
\<close>

record movement_data = movement_fields +
  id_d :: "string option"

text \<open>
  \<open>interface Movement\<close>: the fields together with the one \<open>id\<close> of the object (the field
  is \<open>id_m\<close> here, \<open>id\<close> being the identity function of HOL).
\<close>

record movement = movement_fields +
  id_m :: string

text \<open>A \<open>QueryDocumentSnapshot\<close>: \<open>doc.id\<close>, and what \<open>doc.data()\<close> does: return or throw.\<close>

type_synonym query_document_snapshot = "string \<times> (js_error + movement_data)"

text \<open>The fields of a document of the \<open>products\<close> collection.\<close>

record product_data =
  productName :: string
  productUnit :: string
  quantity_p :: number
  averagePurchasePrice :: number

text \<open>The two collections of the database the component touches, each as a list of
  (document id, data) pairs.\<close>

record store =
  products :: "(string \<times> product_data) list"
  productMovements :: "(string \<times> movement_data) list"

text \<open>
  \<open>ProductHistoryProps\<close>. Of \<open>product\<close> the logic reads \<open>product.id\<close> only (name, unit
  and totals are rendered); \<open>onClose\<close> is a callback of the parent.
\<close>

record props =
  isOpen :: bool
  product_id :: string

datatype notification = showSuccessNotification string | showErrorNotification string

text \<open>
  The five \<open>useState\<close> cells of the component, followed by what its handlers act on outside
  it: the database, the notification sink and \<open>console.error\<close>.
\<close>

record state =
  movements :: "movement list"
  loading :: bool
  showPasswordPrompt :: bool
  selectedMovement :: "movement option"
  swipedMovementId :: "string option"
  db :: store
  notifications :: "notification list"
  console :: "(string \<times> js_error) list"

text \<open>The initial values of the \<open>useState\<close> calls (lines 39-43).\<close>

definition initial_state :: "store \<Rightarrow> notification list \<Rightarrow> (string \<times> js_error) list \<Rightarrow> state" where
  "initial_state d ns c =
     \<lparr>movements = [], loading = True, showPasswordPrompt = False, selectedMovement = None,
      swipedMovementId = None, db = d, notifications = ns, console = c\<rparr>"

section \<open>Gesture reveal state\<close>

text \<open>\<open>handleSwipe\<close> (lines 45-51).\<close>

definition handleSwipe :: "string \<Rightarrow> state \<Rightarrow> state" where
  "handleSwipe movementId s =
     (if swipedMovementId s = Some movementId
      then s\<lparr>swipedMovementId := None\<rparr>
      else s\<lparr>swipedMovementId := Some movementId\<rparr>)"

text \<open>
  \<open>onSwipedLeft\<close> and \<open>onSwipedRight\<close> (lines 54-67) have the same body. The argument is
  what \<open>closest('[data-movement-id]')?.getAttribute('data-movement-id')\<close> gave: \<open>None\<close>
  for \<open>undefined\<close> or \<open>null\<close>. The empty string is falsy in \<open>if (movementId)\<close>.
\<close>

definition onSwiped :: "string option \<Rightarrow> state \<Rightarrow> state" where
  "onSwiped movementId s =
     (case movementId of
        None \<Rightarrow> s
      | Some i \<Rightarrow> if i = [] then s else handleSwipe i s)"


section \<open>Movement feed\<close>

text \<open>
  The object literal of line 79-83:
  \<open>{ id: doc.id, ...doc.data(), date: doc.data().date }\<close>.
  A later property of an object literal replaces an earlier one of the same name: the spread
  comes after \<open>id: doc.id\<close>, so an \<open>id\<close> field of the data replaces the document id, and
  \<open>date\<close>, written last, is the date of the data again.
\<close>

definition to_movement :: "string \<Rightarrow> movement_data \<Rightarrow> movement" where
  "to_movement i d =
     \<lparr>productId = productId d, type_m = type_m d, quantity = quantity d, price = price d,
      totalPrice = totalPrice d, date = date d, description = description d,
      warehouse = warehouse d, previousQuantity = previousQuantity d,
      newQuantity = newQuantity d, previousAveragePrice = previousAveragePrice d,
      newAveragePrice = newAveragePrice d, supplier = supplier d,
      id_m = (case id_d d of None \<Rightarrow> i | Some own \<Rightarrow> own)\<rparr>"

text \<open>
  \<open>snapshot.docs.map(...)\<close>: the documents are visited from the first on, and the first
  \<open>doc.data()\<close> that throws ends the \<open>map\<close> with that exception.
\<close>

fun map_docs :: "query_document_snapshot list \<Rightarrow> js_error + movement list" where
  "map_docs [] = Inr []"
| "map_docs ((i, Inl e) # ds) = Inl e"
| "map_docs ((i, Inr d) # ds) =
     (case map_docs ds of Inl e \<Rightarrow> Inl e | Inr ms \<Rightarrow> Inr (to_movement i d # ms))"

text \<open>\<open>a.date?.seconds || 0\<close> (lines 87-88): \<open>undefined\<close> and \<open>0\<close> both give \<open>0\<close>.\<close>

definition date_seconds :: "movement \<Rightarrow> int" where
  "date_seconds a =
     (case date a of
        None \<Rightarrow> 0
      | Some t \<Rightarrow> if seconds t = 0 then 0 else seconds t)"

text \<open>The comparator of line 86-90.\<close>

definition compare_movements :: "movement \<Rightarrow> movement \<Rightarrow> int" where
  "compare_movements a b =
     (let dateA = date_seconds a; dateB = date_seconds b in dateB - dateA)"

text \<open>
  \<open>Array.prototype.sort\<close> with a comparator. The language fixes the result, not the
  algorithm: the sort is stable, and an element \<open>a\<close> stays before \<open>b\<close> unless the comparator
  is positive on them. For a comparator that is a consistent order, as the difference of two
  integer keys is, that result is the one of a stable insertion sort.
\<close>

fun insert_by :: "('a \<Rightarrow> 'a \<Rightarrow> int) \<Rightarrow> 'a \<Rightarrow> 'a list \<Rightarrow> 'a list" where
  "insert_by cmp x [] = [x]"
| "insert_by cmp x (y # ys) =
     (if cmp x y \<le> 0 then x # y # ys else y # insert_by cmp x ys)"

fun array_sort :: "('a \<Rightarrow> 'a \<Rightarrow> int) \<Rightarrow> 'a list \<Rightarrow> 'a list" where
  "array_sort cmp [] = []"
| "array_sort cmp (x # xs) = insert_by cmp x (array_sort cmp xs)"

text \<open>The body of the \<open>try\<close> block (lines 79-92) up to \<open>setMovements\<close>: the list that is
  published, or the exception that leaves the block.\<close>

definition movementsData :: "query_document_snapshot list \<Rightarrow> js_error + movement list" where
  "movementsData docs =
     (case map_docs docs of
        Inl e \<Rightarrow> Inl e
      | Inr ms \<Rightarrow> Inr (array_sort compare_movements ms))"

text \<open>
  The first callback of \<open>onSnapshot\<close> (lines 77-98). Every exception of the \<open>try\<close> block is
  caught by its \<open>catch\<close>, whose statements do not throw, so the callback has no exceptional
  result.
\<close>

definition onSnapshot_next :: "query_document_snapshot list \<Rightarrow> state \<Rightarrow> state" where
  "onSnapshot_next docs s =
     (case movementsData docs of
        Inr ms \<Rightarrow> s\<lparr>movements := ms\<rparr>
      | Inl error \<Rightarrow>
          s\<lparr>console := console s @ [(''Error processing movements:'', error)],
            movements := []\<rparr>)
     \<lparr>loading := False\<rparr>"

text \<open>The error callback of \<open>onSnapshot\<close> (lines 98-102).\<close>

definition onSnapshot_error :: "js_error \<Rightarrow> state \<Rightarrow> state" where
  "onSnapshot_error error s =
     s\<lparr>console := console s @ [(''Error in movements subscription:'', error)],
       movements := [],
       loading := False\<rparr>"

section \<open>The document store\<close>

text \<open>
  The writes the component puts into a batch:
  \<open>batch.update(doc(db, 'products', id), { quantity, averagePurchasePrice })\<close> and
  \<open>batch.delete(doc(db, 'productMovements', id))\<close>.
\<close>

datatype batch_write = Update_product string number number | Delete_movement string

text \<open>
  Modelled from the spec: the document store is a collaborator outside the component, of
  which section 6 of the specification asks "an atomic multi-document write transaction
  (update + delete combined)" and "a live filtered query". An update of a document that does
  not exist fails; a delete does not. \<open>commit\<close> applies every write of the batch or, when
  one fails or the store rejects the batch (\<open>fault\<close>: permission or network error), none.
\<close>

fun apply_write :: "store \<Rightarrow> batch_write \<Rightarrow> js_error + store" where
  "apply_write st (Update_product i q a) =
     (case map_of (products st) i of
        None \<Rightarrow> Inl (JsError ''not-found'')
      | Some p \<Rightarrow>
          Inr (st\<lparr>products :=
                 AList.update i (p\<lparr>quantity_p := q, averagePurchasePrice := a\<rparr>) (products st)\<rparr>))"
| "apply_write st (Delete_movement i) =
     Inr (st\<lparr>productMovements := AList.delete i (productMovements st)\<rparr>)"

fun apply_writes :: "store \<Rightarrow> batch_write list \<Rightarrow> js_error + store" where
  "apply_writes st [] = Inr st"
| "apply_writes st (w # ws) =
     (case apply_write st w of Inl e \<Rightarrow> Inl e | Inr st' \<Rightarrow> apply_writes st' ws)"

definition commit :: "js_error option \<Rightarrow> batch_write list \<Rightarrow> store \<Rightarrow> js_error + store" where
  "commit fault batch st =
     (case fault of Some e \<Rightarrow> Inl e | None \<Rightarrow> apply_writes st batch)"

text \<open>
  Modelled from the spec: the result set of the live query of lines 72-75,
  \<open>where('productId', '==', product.id)\<close> on \<open>productMovements\<close>, as the store delivers it
  in a snapshot.
\<close>

definition query_snapshot :: "store \<Rightarrow> string \<Rightarrow> query_document_snapshot list" where
  "query_snapshot st pid =
     map (\<lambda>(i, d). (i, Inr d)) (filter (\<lambda>(i, d). productId d = pid) (productMovements st))"

section \<open>Delete workflow\<close>

text \<open>The texts of lines 151 and 154, as their UTF-8 bytes.\<close>

definition success_text :: string where
  "success_text =
     [CHR 0xD0, CHR 0x9E, CHR 0xD0, CHR 0xBF, CHR 0xD0, CHR 0xB5, CHR 0xD1, CHR 0x80,
      CHR 0xD0, CHR 0xB0, CHR 0xD1, CHR 0x86, CHR 0xD0, CHR 0xB8, CHR 0xD1, CHR 0x8F,
      CHR 0x20, CHR 0xD1, CHR 0x83, CHR 0xD1, CHR 0x81, CHR 0xD0, CHR 0xBF, CHR 0xD0,
      CHR 0xB5, CHR 0xD1, CHR 0x88, CHR 0xD0, CHR 0xBD, CHR 0xD0, CHR 0xBE, CHR 0x20,
      CHR 0xD1, CHR 0x83, CHR 0xD0, CHR 0xB4, CHR 0xD0, CHR 0xB0, CHR 0xD0, CHR 0xBB,
      CHR 0xD0, CHR 0xB5, CHR 0xD0, CHR 0xBD, CHR 0xD0, CHR 0xB0]"

definition error_text :: string where
  "error_text =
     [CHR 0xD0, CHR 0x9E, CHR 0xD1, CHR 0x88, CHR 0xD0, CHR 0xB8, CHR 0xD0, CHR 0xB1,
      CHR 0xD0, CHR 0xBA, CHR 0xD0, CHR 0xB0, CHR 0x20, CHR 0xD0, CHR 0xBF, CHR 0xD1,
      CHR 0x80, CHR 0xD0, CHR 0xB8, CHR 0x20, CHR 0xD1, CHR 0x83, CHR 0xD0, CHR 0xB4,
      CHR 0xD0, CHR 0xB0, CHR 0xD0, CHR 0xBB, CHR 0xD0, CHR 0xB5, CHR 0xD0, CHR 0xBD,
      CHR 0xD0, CHR 0xB8, CHR 0xD0, CHR 0xB8, CHR 0x20, CHR 0xD0, CHR 0xBE, CHR 0xD0,
      CHR 0xBF, CHR 0xD0, CHR 0xB5, CHR 0xD1, CHR 0x80, CHR 0xD0, CHR 0xB0, CHR 0xD1,
      CHR 0x86, CHR 0xD0, CHR 0xB8, CHR 0xD0, CHR 0xB8]"

text \<open>\<open>handleDeleteClick\<close> (lines 162-165).\<close>

definition handleDeleteClick :: "movement \<Rightarrow> state \<Rightarrow> state" where
  "handleDeleteClick m s = s\<lparr>selectedMovement := Some m, showPasswordPrompt := True\<rparr>"

text \<open>The \<open>onClose\<close> handed to \<open>PasswordPrompt\<close> (lines 284-287).\<close>

definition passwordPrompt_onClose :: "state \<Rightarrow> state" where
  "passwordPrompt_onClose s = s\<lparr>showPasswordPrompt := False, selectedMovement := None\<rparr>"

text \<open>The conditional expression of lines 137-139.\<close>

definition handleDelete_newQuantity :: "movement \<Rightarrow> number" where
  "handleDelete_newQuantity m =
     (if type_m m = Type_in then previousQuantity m else previousQuantity m)"

text \<open>The batch of lines 133-148, in the order of its writes.\<close>

definition handleDelete_batch :: "props \<Rightarrow> movement \<Rightarrow> batch_write list" where
  "handleDelete_batch p m =
     [Update_product (product_id p) (handleDelete_newQuantity m) (previousAveragePrice m),
      Delete_movement (id_m m)]"

text \<open>
  \<open>handleDelete\<close> (lines 125-160). \<open>p\<close> are the props of the render whose closure runs,
  \<open>fault\<close> is what the store answers to \<open>batch.commit()\<close>. The \<open>finally\<close> block runs
  after either branch.
\<close>

definition handleDelete :: "props \<Rightarrow> js_error option \<Rightarrow> bool \<Rightarrow> state \<Rightarrow> state" where
  "handleDelete p fault isAuthenticated s =
     (case (if isAuthenticated then selectedMovement s else None) of
        None \<Rightarrow> s\<lparr>showPasswordPrompt := False, selectedMovement := None\<rparr>
      | Some m \<Rightarrow>
          (case commit fault (handleDelete_batch p m) (db s) of
             Inr db' \<Rightarrow>
               s\<lparr>db := db',
                 notifications := notifications s @ [showSuccessNotification success_text]\<rparr>
           | Inl error \<Rightarrow>
               s\<lparr>console := console s @ [(''Error deleting movement:'', error)],
                 notifications := notifications s @ [showErrorNotification error_text]\<rparr>)
          \<lparr>showPasswordPrompt := False, selectedMovement := None, swipedMovementId := None\<rparr>)"

section \<open>Events of a mounted component\<close>

text \<open>
  What can happen to a mounted component: the two callbacks of the subscription, the two
  swipe callbacks, a click on a row's delete button, and the two callbacks of the password
  prompt (\<open>onSuccess\<close> is \<open>handleDelete(true)\<close>, and carries the store's answer to the
  commit).
\<close>

datatype event =
    Snapshot "query_document_snapshot list"
  | SubscriptionError js_error
  | SwipedLeft "string option"
  | SwipedRight "string option"
  | DeleteClick movement
  | PromptClose
  | PromptSuccess "js_error option"

fun step :: "props \<Rightarrow> state \<Rightarrow> event \<Rightarrow> state" where
  "step p s (Snapshot docs) = onSnapshot_next docs s"
| "step p s (SubscriptionError e) = onSnapshot_error e s"
| "step p s (SwipedLeft i) = onSwiped i s"
| "step p s (SwipedRight i) = onSwiped i s"
| "step p s (DeleteClick m) = handleDeleteClick m s"
| "step p s PromptClose = passwordPrompt_onClose s"
| "step p s (PromptSuccess fault) = handleDelete p fault True s"

definition run :: "props \<Rightarrow> state \<Rightarrow> event list \<Rightarrow> state" where
  "run p s es = foldl (step p) s es"

fun subscription_event :: "event \<Rightarrow> bool" where
  "subscription_event (Snapshot docs) = True"
| "subscription_event (SubscriptionError e) = True"
| "subscription_event _ = False"

section \<open>Lifecycle of the subscription\<close>

text \<open>
  The \<open>useEffect\<close> of lines 71-105 under React's protocol for effects: the effect runs
  after the first render and after a render in which a dependency (here \<open>product.id\<close>)
  changed, and the function it returned runs before the next run of the effect and at
  unmount. \<open>listeners\<close> are the listeners registered with the store, each with the handle
  \<open>onSnapshot\<close> returned and the product id of its query; \<open>cleanup\<close> holds the handle the
  pending cleanup function will unsubscribe.
\<close>

record lifecycle =
  rendered :: "props option"
  listeners :: "(nat \<times> string) list"
  next_handle :: nat
  cleanup :: "nat option"

definition unmounted :: lifecycle where
  "unmounted = \<lparr>rendered = None, listeners = [], next_handle = 0, cleanup = None\<rparr>"

text \<open>The body of the effect: \<open>onSnapshot(q, ...)\<close>, and \<open>return () => unsubscribe()\<close>.\<close>

definition effect_run :: "props \<Rightarrow> lifecycle \<Rightarrow> lifecycle" where
  "effect_run p l =
     l\<lparr>listeners := listeners l @ [(next_handle l, product_id p)],
       cleanup := Some (next_handle l),
       next_handle := Suc (next_handle l)\<rparr>"

definition effect_cleanup :: "lifecycle \<Rightarrow> lifecycle" where
  "effect_cleanup l =
     (case cleanup l of
        None \<Rightarrow> l
      | Some h \<Rightarrow> l\<lparr>listeners := filter (\<lambda>(h', q). h' \<noteq> h) (listeners l), cleanup := None\<rparr>)"

datatype react_event = Mount props | Rerender props | Unmount

fun react_step :: "lifecycle \<Rightarrow> react_event \<Rightarrow> lifecycle" where
  "react_step l (Mount p) =
     (case rendered l of
        None \<Rightarrow> effect_run p (l\<lparr>rendered := Some p\<rparr>)
      | Some q \<Rightarrow> l)"
| "react_step l (Rerender p) =
     (case rendered l of
        None \<Rightarrow> l
      | Some q \<Rightarrow>
          if product_id p \<noteq> product_id q
          then effect_run p (effect_cleanup (l\<lparr>rendered := Some p\<rparr>))
          else l\<lparr>rendered := Some p\<rparr>)"
| "react_step l Unmount =
     (case rendered l of
        None \<Rightarrow> l
      | Some q \<Rightarrow> effect_cleanup (l\<lparr>rendered := None\<rparr>))"

definition react_run :: "react_event list \<Rightarrow> lifecycle" where
  "react_run es = foldl react_step unmounted es"

text \<open>The view is on screen when the component is mounted and line 107 does not return
  \<open>null\<close>.\<close>

definition view_open :: "lifecycle \<Rightarrow> bool" where
  "view_open l = (case rendered l of None \<Rightarrow> False | Some p \<Rightarrow> isOpen p)"

section \<open>Notions the properties are stated with\<close>

text \<open>The order the comparator sorts into: larger \<open>seconds\<close> first.\<close>

definition newest_first :: "movement \<Rightarrow> movement \<Rightarrow> bool" where
  "newest_first a b \<longleftrightarrow> date_seconds b \<le> date_seconds a"

text \<open>
  The quantity the specification asks the delete workflow to write: "set Product.quantity =
  Movement.previousQuantity", with no branch on the direction.
\<close>

definition spec_restored_quantity :: "movement \<Rightarrow> number" where
  "spec_restored_quantity m = previousQuantity m"

text \<open>
  While the component is mounted exactly one listener is registered, the one the pending
  cleanup will unsubscribe, and its query is for the product of the last render; while it is
  not mounted there is none.
\<close>

definition subscription_invariant :: "lifecycle \<Rightarrow> bool" where
  "subscription_invariant l =
     (case rendered l of
        None \<Rightarrow> listeners l = [] \<and> cleanup l = None
      | Some p \<Rightarrow>
          (case cleanup l of
             None \<Rightarrow> False
           | Some h \<Rightarrow> listeners l = [(h, product_id p)]))"

subsection \<open>Scenarios\<close>

text \<open>
  The scenario of section 8 of the specification: a product with quantity 100 and average
  price 10, and one movement of 20 units that took it from 80 at 9 to 100 at 10. The state
  is the one reached when the feed has published the movement, its row has been swiped and
  its delete button clicked. The data of the movement has no \<open>id\<close> field of its own.
\<close>

definition scenario_movement :: "movement_type \<Rightarrow> timestamp option \<Rightarrow> movement_data" where
  "scenario_movement ty d =
     \<lparr>productId = ''p1'', type_m = ty, quantity = 20, price = 14, totalPrice = 280, date = d,
      description = ''delivery'', warehouse = ''main'', previousQuantity = 80,
      newQuantity = 100, previousAveragePrice = 9, newAveragePrice = 10, supplier = None,
      id_d = None\<rparr>"

definition scenario_store :: "movement_type \<Rightarrow> store" where
  "scenario_store ty =
     \<lparr>products =
        [(''p1'', \<lparr>productName = ''cement'', productUnit = ''kg'', quantity_p = 100,
                  averagePurchasePrice = 10\<rparr>)],
      productMovements = [(''m1'', scenario_movement ty (Some \<lparr>seconds = 1700000000, nanoseconds = 0\<rparr>))]\<rparr>"

definition scenario_props :: props where
  "scenario_props = \<lparr>isOpen = True, product_id = ''p1''\<rparr>"

definition scenario_selected :: "movement_type \<Rightarrow> movement" where
  "scenario_selected ty =
     to_movement ''m1'' (scenario_movement ty (Some \<lparr>seconds = 1700000000, nanoseconds = 0\<rparr>))"

definition scenario_state :: "movement_type \<Rightarrow> state" where
  "scenario_state ty =
     run scenario_props (initial_state (scenario_store ty) [] [])
       [Snapshot (query_snapshot (scenario_store ty) ''p1''), SwipedLeft (Some ''m1''),
        DeleteClick (scenario_selected ty)]"

definition scenario_restored :: store where
  "scenario_restored =
     \<lparr>products =
        [(''p1'', \<lparr>productName = ''cement'', productUnit = ''kg'', quantity_p = 80,
                  averagePurchasePrice = 9\<rparr>)],
      productMovements = []\<rparr>"

text \<open>Snapshots: a record without a date beside one dated before the epoch; three records;
  a record whose \<open>data()\<close> throws.\<close>

definition undated_and_old :: "query_document_snapshot list" where
  "undated_and_old =
     [(''a'', Inr (scenario_movement Type_in None)),
      (''b'', Inr (scenario_movement Type_out (Some \<lparr>seconds = - 1, nanoseconds = 0\<rparr>)))]"

definition three_docs :: "query_document_snapshot list" where
  "three_docs =
     [(''a'', Inr (scenario_movement Type_in (Some \<lparr>seconds = 5, nanoseconds = 0\<rparr>))),
      (''b'', Inr (scenario_movement Type_in None)),
      (''c'', Inr (scenario_movement Type_out (Some \<lparr>seconds = 9, nanoseconds = 0\<rparr>)))]"

definition three_movements :: "movement list" where
  "three_movements =
     [to_movement ''a'' (scenario_movement Type_in (Some \<lparr>seconds = 5, nanoseconds = 0\<rparr>)),
      to_movement ''b'' (scenario_movement Type_in None),
      to_movement ''c'' (scenario_movement Type_out (Some \<lparr>seconds = 9, nanoseconds = 0\<rparr>))]"

definition one_bad_doc :: "query_document_snapshot list" where
  "one_bad_doc =
     [(''a'', Inr (scenario_movement Type_in None)), (''b'', Inl (JsError ''malformed''))]"

text \<open>Two records of the same second, the older one delivered first.\<close>

definition same_second :: "query_document_snapshot list" where
  "same_second =
     [(''a'', Inr (scenario_movement Type_in (Some \<lparr>seconds = 100, nanoseconds = 100\<rparr>))),
      (''b'', Inr (scenario_movement Type_in (Some \<lparr>seconds = 100, nanoseconds = 900000000\<rparr>)))]"

text \<open>
  The scenario again, the data of the movement's document \<open>m1\<close> now holding a field
  \<open>id\<close> with the value \<open>x\<close>: the store, the record the feed makes of the document, and
  the state reached when that record has been published, swiped and its delete button
  clicked.
\<close>

definition shadowed_data :: movement_data where
  "shadowed_data =
     (scenario_movement Type_in (Some \<lparr>seconds = 1700000000, nanoseconds = 0\<rparr>))
       \<lparr>id_d := Some ''x''\<rparr>"

definition shadowed_store :: store where
  "shadowed_store =
     \<lparr>products =
        [(''p1'', \<lparr>productName = ''cement'', productUnit = ''kg'', quantity_p = 100,
                  averagePurchasePrice = 10\<rparr>)],
      productMovements = [(''m1'', shadowed_data)]\<rparr>"

definition shadowed_record :: movement where
  "shadowed_record = to_movement ''m1'' shadowed_data"

definition shadowed_state :: state where
  "shadowed_state =
     run scenario_props (initial_state shadowed_store [] [])
       [Snapshot (query_snapshot shadowed_store ''p1''), SwipedLeft (Some ''x''),
        DeleteClick shadowed_record]"

definition shadowed_after :: store where
  "shadowed_after =
     \<lparr>products =
        [(''p1'', \<lparr>productName = ''cement'', productUnit = ''kg'', quantity_p = 80,
                  averagePurchasePrice = 9\<rparr>)],
      productMovements = [(''m1'', shadowed_data)]\<rparr>"




text \<open>Props of three renders.\<close>

definition open_p1 :: props where
  "open_p1 = \<lparr>isOpen = True, product_id = ''p1''\<rparr>"

definition closed_p1 :: props where
  "closed_p1 = \<lparr>isOpen = False, product_id = ''p1''\<rparr>"

definition open_p2 :: props where
  "open_p2 = \<lparr>isOpen = True, product_id = ''p2''\<rparr>"

section \<open>Lemmas\<close>

subsection \<open>The sort\<close>

lemma mset_insert_by: "mset (insert_by cmp x xs) = add_mset x (mset xs)"
  by (induction xs) auto

lemma mset_array_sort: "mset (array_sort cmp xs) = mset xs"
  by (induction xs) (auto simp: mset_insert_by)

lemma set_insert_by: "set (insert_by cmp x xs) = insert x (set xs)"
  by (induction xs) auto

lemma set_array_sort: "set (array_sort cmp xs) = set xs"
  by (induction xs) (auto simp: set_insert_by)

lemma sorted_insert_by:
  "sorted_wrt newest_first xs \<Longrightarrow> sorted_wrt newest_first (insert_by compare_movements x xs)"
  by (induction xs) (auto simp: set_insert_by newest_first_def compare_movements_def)

lemma sorted_array_sort: "sorted_wrt newest_first (array_sort compare_movements xs)"
  by (induction xs) (auto simp: sorted_insert_by)

lemma date_seconds_eq: "date_seconds a = (case date a of None \<Rightarrow> 0 | Some t \<Rightarrow> seconds t)"
  by (simp add: date_seconds_def split: option.splits)

text \<open>The model of \<open>Array.prototype.sort\<close> is the stable sort of the library, on the
  negated key.\<close>

lemma array_sort_sort_key:
  "array_sort compare_movements xs = sort_key (\<lambda>m. - date_seconds m) xs"
proof -
  have ins: "insert_by compare_movements x ys = insort_key (\<lambda>m. - date_seconds m) x ys" for x ys
    by (induction ys) (auto simp: compare_movements_def)
  show ?thesis by (induction xs) (auto simp: ins)
qed

subsection \<open>The feed\<close>

lemma map_docs_records:
  "map_docs docs = Inr ms \<Longrightarrow> ms = map (\<lambda>(i, r). to_movement i (projr r)) docs"
  by (induction docs arbitrary: ms rule: map_docs.induct) (auto split: sum.splits)

lemma id_m_to_movement:
  "id_m (to_movement i d) = (case id_d d of None \<Rightarrow> i | Some own \<Rightarrow> own)"
  by (simp add: to_movement_def)

lemma map_docs_throws: "\<exists>d\<in>set docs. isl (snd d) \<Longrightarrow> \<exists>e. map_docs docs = Inl e"
  by (induction docs rule: map_docs.induct) (auto split: sum.splits)

lemma published_sorted:
  assumes "map_docs docs = Inr ms"
  shows "movements (onSnapshot_next docs s) = array_sort compare_movements ms"
  using assms by (simp add: onSnapshot_next_def movementsData_def)

lemma loading_step: "loading (step p s e) = (loading s \<and> \<not> subscription_event e)"
  by (cases e) (auto simp: onSnapshot_next_def onSnapshot_error_def onSwiped_def handleSwipe_def
      handleDeleteClick_def passwordPrompt_onClose_def handleDelete_def split: sum.splits option.splits)

lemma loading_run: "loading (run p s es) = (loading s \<and> filter subscription_event es = [])"
  unfolding run_def by (induction es arbitrary: s) (auto simp: loading_step)

subsection \<open>The batch\<close>

lemma commit_batch_ok:
  assumes "commit fault (handleDelete_batch p m) st = Inr st'"
  shows "fault = None"
    and "\<exists>pd. map_of (products st) (product_id p) = Some pd \<and>
           st' = \<lparr>products = AList.update (product_id p)
                     (pd\<lparr>quantity_p := previousQuantity m,
                         averagePurchasePrice := previousAveragePrice m\<rparr>) (products st),
                  productMovements = AList.delete (id_m m) (productMovements st)\<rparr>"
  using assms
  by (auto simp: commit_def handleDelete_batch_def handleDelete_newQuantity_def
      split: option.splits sum.splits)

lemma commit_batch_succeeds:
  "map_of (products st) (product_id p) = Some pd \<Longrightarrow>
   \<exists>st'. commit None (handleDelete_batch p m) st = Inr st'"
  by (simp add: commit_def handleDelete_batch_def)

lemma commit_fault: "commit (Some e) batch st = Inl e"
  by (simp add: commit_def)

subsection \<open>The scenario\<close>

lemma scenario_state_eq:
  "scenario_state ty =
     \<lparr>movements = [scenario_selected ty], loading = False, showPasswordPrompt = True,
      selectedMovement = Some (scenario_selected ty), swipedMovementId = Some ''m1'',
      db = scenario_store ty, notifications = [], console = []\<rparr>"
  by (simp add: scenario_state_def run_def initial_state_def query_snapshot_def scenario_store_def
      onSnapshot_next_def movementsData_def scenario_selected_def onSwiped_def handleSwipe_def
      handleDeleteClick_def scenario_movement_def)

lemma scenario_commit:
  "commit None (handleDelete_batch scenario_props (scenario_selected ty)) (scenario_store ty)
     = Inr scenario_restored"
  by (simp add: commit_def handleDelete_batch_def handleDelete_newQuantity_def scenario_props_def
      scenario_selected_def scenario_store_def scenario_restored_def to_movement_def
      scenario_movement_def)

subsection \<open>Rows and listeners\<close>





lemma invariant_unmounted: "subscription_invariant unmounted"
  by (simp add: subscription_invariant_def unmounted_def)

lemma invariant_step:
  "subscription_invariant l \<Longrightarrow> subscription_invariant (react_step l e)"
  by (cases e)
    (auto simp: subscription_invariant_def effect_run_def effect_cleanup_def
      split: option.splits)

lemma invariant_foldl:
  "subscription_invariant l \<Longrightarrow> subscription_invariant (foldl react_step l es)"
  by (induction es arbitrary: l) (simp_all add: invariant_step)

lemma react_run_snoc: "react_run (es @ [e]) = react_step (react_run es) e"
  by (simp add: react_run_def)

section \<open>Delete workflow: properties\<close>

text \<open>
  What \<open>handleDelete\<close> does with a selected record \<open>m\<close> when the gate answers true: it
  commits one batch of two writes, the update of the product to \<open>previousQuantity m\<close> and
  \<open>previousAveragePrice m\<close> and the delete of the document whose id is \<open>id_m m\<close>, the
  same batch for either direction. When the commit succeeds the product has the two restored
  values, no document is left under the id \<open>id_m m\<close>, every other document is as before,
  one success notification is emitted, and the prompt, the selection and the reveal state are
  cleared.
\<close>

lemma handleDelete_commit_effect:
  assumes sel: "selectedMovement s = Some m"
    and ok: "commit fault (handleDelete_batch p m) (db s) = Inr db'"
  shows "handleDelete_batch p m =
           [Update_product (product_id p) (previousQuantity m) (previousAveragePrice m),
            Delete_movement (id_m m)]
       \<and> handleDelete p fault True s =
           s\<lparr>db := db',
             notifications := notifications s @ [showSuccessNotification success_text],
             showPasswordPrompt := False, selectedMovement := None, swipedMovementId := None\<rparr>
       \<and> (\<exists>pd. map_of (products (db s)) (product_id p) = Some pd
              \<and> map_of (products db') (product_id p) =
                  Some (pd\<lparr>quantity_p := previousQuantity m,
                           averagePurchasePrice := previousAveragePrice m\<rparr>))
       \<and> map_of (productMovements db') (id_m m) = None
       \<and> (\<forall>k. k \<noteq> product_id p \<longrightarrow> map_of (products db') k = map_of (products (db s)) k)
       \<and> (\<forall>k. k \<noteq> id_m m \<longrightarrow>
              map_of (productMovements db') k = map_of (productMovements (db s)) k)"
proof -
  from commit_batch_ok(2) [OF ok] obtain pd where
    pd: "map_of (products (db s)) (product_id p) = Some pd" and
    db': "db' = \<lparr>products = AList.update (product_id p)
                     (pd\<lparr>quantity_p := previousQuantity m,
                         averagePurchasePrice := previousAveragePrice m\<rparr>) (products (db s)),
                  productMovements = AList.delete (id_m m) (productMovements (db s))\<rparr>"
    by blast
  have batch: "handleDelete_batch p m =
           [Update_product (product_id p) (previousQuantity m) (previousAveragePrice m),
            Delete_movement (id_m m)]"
    by (simp add: handleDelete_batch_def handleDelete_newQuantity_def)
  have st: "handleDelete p fault True s =
           s\<lparr>db := db',
             notifications := notifications s @ [showSuccessNotification success_text],
             showPasswordPrompt := False, selectedMovement := None, swipedMovementId := None\<rparr>"
    using sel ok by (simp add: handleDelete_def)
  have prod: "map_of (products db') (product_id p) =
                  Some (pd\<lparr>quantity_p := previousQuantity m,
                           averagePurchasePrice := previousAveragePrice m\<rparr>)"
    by (simp add: db' update_conv')
  have gone: "map_of (productMovements db') (id_m m) = None"
    by (simp add: db' delete_conv')
  have others: "k \<noteq> product_id p \<Longrightarrow> map_of (products db') k = map_of (products (db s)) k" for k
    by (simp add: db' update_conv')
  have others_m: "k \<noteq> id_m m \<Longrightarrow>
      map_of (productMovements db') k = map_of (productMovements (db s)) k" for k
    by (simp add: db' delete_conv')
  from batch st pd prod gone others others_m show ?thesis by blast
qed

text \<open>
  The scenario of the specification, for a movement of either direction: the product goes
  back to 80 at 9, the document is gone and the feed of the restored store is empty.
\<close>

lemma scenario_delete_restores:
  "handleDelete scenario_props None True (scenario_state ty) =
     \<lparr>movements = [scenario_selected ty], loading = False, showPasswordPrompt = False,
      selectedMovement = None, swipedMovementId = None, db = scenario_restored,
      notifications = [showSuccessNotification success_text], console = []\<rparr>
   \<and> movements (onSnapshot_next (query_snapshot scenario_restored ''p1'') s) = []"
proof -
  have sel: "selectedMovement (scenario_state ty) = Some (scenario_selected ty)"
    by (simp add: scenario_state_eq)
  have ok: "commit None (handleDelete_batch scenario_props (scenario_selected ty))
        (db (scenario_state ty)) = Inr scenario_restored"
    by (simp add: scenario_state_eq scenario_commit)
  from handleDelete_commit_effect [OF sel ok]
  have "handleDelete scenario_props None True (scenario_state ty) =
     \<lparr>movements = [scenario_selected ty], loading = False, showPasswordPrompt = False,
      selectedMovement = None, swipedMovementId = None, db = scenario_restored,
      notifications = [showSuccessNotification success_text], console = []\<rparr>"
    by (simp add: scenario_state_eq)
  moreover have "movements (onSnapshot_next (query_snapshot scenario_restored ''p1'') s) = []"
    by (simp add: onSnapshot_next_def movementsData_def query_snapshot_def scenario_restored_def)
  ultimately show ?thesis by blast
qed

text \<open>
  C1 fails on the code. The record the feed makes of a document carries the document's id
  only when the data has no \<open>id\<close> field of its own (lines 79-83), and line 147 addresses
  the document to delete by the record's id. For the document \<open>m1\<close> whose data holds
  \<open>id = x\<close>: the feed publishes a record with the id \<open>x\<close>; deleting it commits the
  update of the product and the delete of \<open>productMovements/x\<close>, which is no document; the
  commit succeeds, the product is set back to 80 at 9 and success is notified, and the
  document \<open>m1\<close> is still in the store and in the next snapshot of the feed.
\<close>

theorem handleDelete_shadowed_id_keeps_record:
  "query_snapshot shadowed_store ''p1'' = [(''m1'', Inr shadowed_data)]
   \<and> movements shadowed_state = [shadowed_record]
   \<and> id_m shadowed_record = ''x''
   \<and> selectedMovement shadowed_state = Some shadowed_record
   \<and> db shadowed_state = shadowed_store
   \<and> handleDelete_batch scenario_props shadowed_record =
       [Update_product ''p1'' 80 9, Delete_movement ''x'']
   \<and> handleDelete scenario_props None True shadowed_state =
       \<lparr>movements = [shadowed_record], loading = False, showPasswordPrompt = False,
        selectedMovement = None, swipedMovementId = None, db = shadowed_after,
        notifications = [showSuccessNotification success_text], console = []\<rparr>
   \<and> map_of (productMovements shadowed_after) ''m1'' = Some shadowed_data
   \<and> movements (onSnapshot_next (query_snapshot shadowed_after ''p1'')
        (handleDelete scenario_props None True shadowed_state)) = [shadowed_record]"
proof -
  have q: "query_snapshot shadowed_store ''p1'' = [(''m1'', Inr shadowed_data)]"
    and q': "query_snapshot shadowed_after ''p1'' = [(''m1'', Inr shadowed_data)]"
    by (simp_all add: query_snapshot_def shadowed_store_def shadowed_after_def shadowed_data_def
        scenario_movement_def)
  have i: "id_m shadowed_record = ''x''"
    by (simp add: shadowed_record_def shadowed_data_def id_m_to_movement)
  have st: "shadowed_state =
     \<lparr>movements = [shadowed_record], loading = False, showPasswordPrompt = True,
      selectedMovement = Some shadowed_record, swipedMovementId = Some ''x'',
      db = shadowed_store, notifications = [], console = []\<rparr>"
    by (simp add: shadowed_state_def run_def initial_state_def q onSnapshot_next_def
        movementsData_def shadowed_record_def onSwiped_def handleSwipe_def handleDeleteClick_def)
  have b: "handleDelete_batch scenario_props shadowed_record =
       [Update_product ''p1'' 80 9, Delete_movement ''x'']"
    by (simp add: handleDelete_batch_def handleDelete_newQuantity_def i scenario_props_def)
      (simp add: shadowed_record_def shadowed_data_def to_movement_def scenario_movement_def)
  have c: "commit None [Update_product ''p1'' 80 9, Delete_movement ''x''] shadowed_store
      = Inr shadowed_after"
    by (simp add: commit_def shadowed_store_def shadowed_after_def)
  have h: "handleDelete scenario_props None True shadowed_state =
       \<lparr>movements = [shadowed_record], loading = False, showPasswordPrompt = False,
        selectedMovement = None, swipedMovementId = None, db = shadowed_after,
        notifications = [showSuccessNotification success_text], console = []\<rparr>"
    by (simp add: handleDelete_def st b c)
  have kept: "map_of (productMovements shadowed_after) ''m1'' = Some shadowed_data"
    by (simp add: shadowed_after_def)
  have again: "movements (onSnapshot_next (query_snapshot shadowed_after ''p1'')
        (handleDelete scenario_props None True shadowed_state)) = [shadowed_record]"
    by (simp add: q' onSnapshot_next_def movementsData_def shadowed_record_def)
  have pub: "movements shadowed_state = [shadowed_record]"
    and sel: "selectedMovement shadowed_state = Some shadowed_record"
    and d: "db shadowed_state = shadowed_store"
    by (simp_all add: st)
  from q pub i sel d b h kept again show ?thesis by blast
qed

text \<open>
  C2. When the commit of the batch fails, whether the store rejects it or a write of it
  cannot be applied, the store is unchanged, exactly one notification is added and it is
  the error notification, the error is logged, and the prompt, the selection and the reveal
  state are cleared.
\<close>

theorem handleDelete_failed_commit:
  assumes sel: "selectedMovement s = Some m"
    and failed: "commit fault (handleDelete_batch p m) (db s) = Inl e"
  shows "handleDelete p fault True s =
           s\<lparr>console := console s @ [(''Error deleting movement:'', e)],
             notifications := notifications s @ [showErrorNotification error_text],
             showPasswordPrompt := False, selectedMovement := None, swipedMovementId := None\<rparr>
       \<and> db (handleDelete p fault True s) = db s
       \<and> notifications (handleDelete p fault True s) =
           notifications s @ [showErrorNotification error_text]
       \<and> showPasswordPrompt (handleDelete p fault True s) = False
       \<and> selectedMovement (handleDelete p fault True s) = None
       \<and> swipedMovementId (handleDelete p fault True s) = None"
  using sel failed by (simp add: handleDelete_def)

theorem handleDelete_failed_commit_witness:
  "selectedMovement (scenario_state Type_in) = Some (scenario_selected Type_in)
   \<and> commit (Some (JsError ''unavailable''))
        (handleDelete_batch scenario_props (scenario_selected Type_in))
        (db (scenario_state Type_in)) = Inl (JsError ''unavailable'')
   \<and> handleDelete scenario_props (Some (JsError ''unavailable'')) True (scenario_state Type_in) =
       \<lparr>movements = [scenario_selected Type_in], loading = False, showPasswordPrompt = False,
        selectedMovement = None, swipedMovementId = None, db = scenario_store Type_in,
        notifications = [showErrorNotification error_text],
        console = [(''Error deleting movement:'', JsError ''unavailable'')]\<rparr>
   \<and> commit None (handleDelete_batch open_p2 (scenario_selected Type_in))
        (db (scenario_state Type_in)) = Inl (JsError ''not-found'')
   \<and> db (handleDelete open_p2 None True (scenario_state Type_in)) = scenario_store Type_in
   \<and> notifications (handleDelete open_p2 None True (scenario_state Type_in)) =
       [showErrorNotification error_text]"
proof -
  have sel: "selectedMovement (scenario_state Type_in) = Some (scenario_selected Type_in)"
    by (simp add: scenario_state_eq)
  have failed: "commit (Some (JsError ''unavailable''))
        (handleDelete_batch scenario_props (scenario_selected Type_in))
        (db (scenario_state Type_in)) = Inl (JsError ''unavailable'')"
    by (rule commit_fault)
  have missing: "commit None (handleDelete_batch open_p2 (scenario_selected Type_in))
        (db (scenario_state Type_in)) = Inl (JsError ''not-found'')"
    by (simp add: commit_def handleDelete_batch_def open_p2_def scenario_state_eq
        scenario_store_def)
  from handleDelete_failed_commit [OF sel failed]
  have rejected: "handleDelete scenario_props (Some (JsError ''unavailable'')) True
        (scenario_state Type_in) =
       \<lparr>movements = [scenario_selected Type_in], loading = False, showPasswordPrompt = False,
        selectedMovement = None, swipedMovementId = None, db = scenario_store Type_in,
        notifications = [showErrorNotification error_text],
        console = [(''Error deleting movement:'', JsError ''unavailable'')]\<rparr>"
    by (simp add: scenario_state_eq)
  from handleDelete_failed_commit [OF sel missing]
  have "db (handleDelete open_p2 None True (scenario_state Type_in)) = scenario_store Type_in"
    and "notifications (handleDelete open_p2 None True (scenario_state Type_in)) =
       [showErrorNotification error_text]"
    by (simp_all add: scenario_state_eq)
  with sel failed rejected missing show ?thesis by blast
qed

text \<open>
  C4. When the gate answers false, \<open>handleDelete\<close> writes nothing to the store, leaves
  the published list, the loading flag and the notifications as they are, and clears the
  selection and the prompt. The \<open>onClose\<close> of the prompt does the same.
\<close>

theorem handleDelete_not_authenticated:
  "handleDelete p fault False s = s\<lparr>showPasswordPrompt := False, selectedMovement := None\<rparr>
   \<and> db (handleDelete p fault False s) = db s
   \<and> movements (handleDelete p fault False s) = movements s
   \<and> loading (handleDelete p fault False s) = loading s
   \<and> notifications (handleDelete p fault False s) = notifications s
   \<and> selectedMovement (handleDelete p fault False s) = None
   \<and> showPasswordPrompt (handleDelete p fault False s) = False
   \<and> passwordPrompt_onClose s = handleDelete p fault False s"
  by (simp add: handleDelete_def passwordPrompt_onClose_def)

text \<open>
  C10. When the gate answers true and no movement is selected, \<open>handleDelete\<close> only
  closes the prompt: no write, no notification, nothing logged, and the selection stays
  empty.
\<close>

theorem handleDelete_nothing_selected:
  assumes "selectedMovement s = None"
  shows "handleDelete p fault True s = s\<lparr>showPasswordPrompt := False\<rparr>
       \<and> db (handleDelete p fault True s) = db s
       \<and> notifications (handleDelete p fault True s) = notifications s
       \<and> console (handleDelete p fault True s) = console s
       \<and> showPasswordPrompt (handleDelete p fault True s) = False
       \<and> selectedMovement (handleDelete p fault True s) = None"
  using assms by (simp add: handleDelete_def)

theorem handleDelete_nothing_selected_witness:
  "selectedMovement (initial_state (scenario_store Type_in) [] []\<lparr>showPasswordPrompt := True\<rparr>) = None
   \<and> handleDelete scenario_props None True
        (initial_state (scenario_store Type_in) [] []\<lparr>showPasswordPrompt := True\<rparr>)
      = initial_state (scenario_store Type_in) [] []"
proof -
  have none: "selectedMovement
      (initial_state (scenario_store Type_in) [] []\<lparr>showPasswordPrompt := True\<rparr>) = None"
    by (simp add: initial_state_def)
  from handleDelete_nothing_selected [OF none, of scenario_props None] none show ?thesis
    by (simp add: initial_state_def)
qed

text \<open>
  C6. The conditional of lines 137-139 is the function \<open>previousQuantity\<close>: it equals the
  specification's non-branching expression on every movement, and the quantity and the
  batch are the same for a movement of type \<open>in\<close> and the same movement of type \<open>out\<close>.
\<close>

theorem newQuantity_ignores_direction:
  "handleDelete_newQuantity = spec_restored_quantity
   \<and> handleDelete_newQuantity (m\<lparr>type_m := Type_in\<rparr>) = handleDelete_newQuantity (m\<lparr>type_m := Type_out\<rparr>)
   \<and> handleDelete_batch p (m\<lparr>type_m := Type_in\<rparr>) = handleDelete_batch p (m\<lparr>type_m := Type_out\<rparr>)"
  by (auto simp: handleDelete_newQuantity_def spec_restored_quantity_def handleDelete_batch_def)

section \<open>Movement feed: properties\<close>

text \<open>
  C3, as the code has it. When no document of a snapshot throws, the published list is
  replaced by the records made of the documents of that snapshot, whatever was published
  before, in an order that is non-increasing in the whole seconds of the timestamp, a record
  without a timestamp counting as 0 seconds. Such a record therefore comes after every
  record dated after the epoch; when all dated records are after the epoch, the undated ones
  are last.
\<close>

theorem feed_publishes_sorted_snapshot:
  assumes ok: "map_docs docs = Inr ms"
  shows "mset (movements (onSnapshot_next docs s)) = mset ms
       \<and> ms = map (\<lambda>(i, r). to_movement i (projr r)) docs
       \<and> movements (onSnapshot_next docs s) = movements (onSnapshot_next docs s')
       \<and> sorted_wrt
           (\<lambda>a b. (case date b of None \<Rightarrow> 0 | Some t \<Rightarrow> seconds t)
                    \<le> (case date a of None \<Rightarrow> 0 | Some t \<Rightarrow> seconds t))
           (movements (onSnapshot_next docs s))
       \<and> ((\<forall>m\<in>set ms. \<forall>t. date m = Some t \<longrightarrow> 0 < seconds t) \<longrightarrow>
            sorted_wrt (\<lambda>a b. date a = None \<longrightarrow> date b = None)
              (movements (onSnapshot_next docs s)))"
proof -
  let ?p = "movements (onSnapshot_next docs s)"
  have p: "?p = array_sort compare_movements ms"
    by (rule published_sorted [OF ok])
  have perm: "mset ?p = mset ms"
    by (simp add: p mset_array_sort)
  have recs: "ms = map (\<lambda>(i, r). to_movement i (projr r)) docs"
    by (rule map_docs_records [OF ok])
  have same: "?p = movements (onSnapshot_next docs s')"
    by (simp add: published_sorted [OF ok])
  have srt: "sorted_wrt newest_first ?p"
    by (simp add: p sorted_array_sort)
  have by_seconds: "sorted_wrt
           (\<lambda>a b. (case date b of None \<Rightarrow> 0 | Some t \<Rightarrow> seconds t)
                    \<le> (case date a of None \<Rightarrow> 0 | Some t \<Rightarrow> seconds t)) ?p"
  proof -
    have "newest_first =
        (\<lambda>a b. (case date b of None \<Rightarrow> 0 | Some t \<Rightarrow> seconds t)
                 \<le> (case date a of None \<Rightarrow> 0 | Some t \<Rightarrow> seconds t))"
      by (intro ext) (simp add: newest_first_def date_seconds_eq)
    with srt show ?thesis by simp
  qed
  have last: "sorted_wrt (\<lambda>a b. date a = None \<longrightarrow> date b = None) ?p"
    if pos: "\<forall>m\<in>set ms. \<forall>t. date m = Some t \<longrightarrow> 0 < seconds t"
  proof (rule sorted_wrt_mono_rel [OF _ srt])
    fix a b
    assume "a \<in> set ?p" and b: "b \<in> set ?p" and ab: "newest_first a b"
    from b have "b \<in> set ms" by (simp add: p set_array_sort)
    with pos have "\<forall>t. date b = Some t \<longrightarrow> 0 < seconds t" by blast
    with ab show "date a = None \<longrightarrow> date b = None"
      by (cases "date b"; cases "date a") (auto simp: newest_first_def date_seconds_eq)
  qed
  from perm recs same by_seconds last show ?thesis by blast
qed

text \<open>Three documents dated 5 seconds, not at all, and 9 seconds are published as 9, 5,
  undated, over a list that held another record before.\<close>

theorem feed_publishes_sorted_snapshot_witness:
  "map_docs three_docs = Inr three_movements
   \<and> list_all (\<lambda>m. case date m of None \<Rightarrow> True | Some t \<Rightarrow> 0 < seconds t) three_movements
   \<and> movements (scenario_state Type_in) = [scenario_selected Type_in]
   \<and> map id_m (movements (onSnapshot_next three_docs (scenario_state Type_in))) = [''c'', ''a'', ''b'']
   \<and> map date (movements (onSnapshot_next three_docs (scenario_state Type_in))) =
       [Some \<lparr>seconds = 9, nanoseconds = 0\<rparr>, Some \<lparr>seconds = 5, nanoseconds = 0\<rparr>, None]
   \<and> mset (movements (onSnapshot_next three_docs (scenario_state Type_in))) = mset three_movements
   \<and> sorted_wrt (\<lambda>a b. date a = None \<longrightarrow> date b = None)
        (movements (onSnapshot_next three_docs (scenario_state Type_in)))"
proof -
  have ok: "map_docs three_docs = Inr three_movements"
    by (simp add: three_docs_def three_movements_def)
  have pos: "\<forall>m\<in>set three_movements. \<forall>t. date m = Some t \<longrightarrow> 0 < seconds t"
    by (simp add: three_movements_def to_movement_def scenario_movement_def)
  have before: "movements (scenario_state Type_in) = [scenario_selected Type_in]"
    by (simp add: scenario_state_eq)
  have ids: "map id_m (movements (onSnapshot_next three_docs (scenario_state Type_in)))
      = [''c'', ''a'', ''b'']"
    by (simp add: published_sorted [OF ok] three_movements_def to_movement_def
        scenario_movement_def compare_movements_def date_seconds_def)
  have dates: "map date (movements (onSnapshot_next three_docs (scenario_state Type_in))) =
       [Some \<lparr>seconds = 9, nanoseconds = 0\<rparr>, Some \<lparr>seconds = 5, nanoseconds = 0\<rparr>, None]"
    by (simp add: published_sorted [OF ok] three_movements_def to_movement_def
        scenario_movement_def compare_movements_def date_seconds_def)
  from feed_publishes_sorted_snapshot [OF ok, of "scenario_state Type_in"] pos
  have "sorted_wrt (\<lambda>a b. date a = None \<longrightarrow> date b = None)
        (movements (onSnapshot_next three_docs (scenario_state Type_in)))"
    and "mset (movements (onSnapshot_next three_docs (scenario_state Type_in)))
        = mset three_movements"
    by blast+
  moreover have "list_all (\<lambda>m. case date m of None \<Rightarrow> True | Some t \<Rightarrow> 0 < seconds t)
      three_movements"
    by (simp add: three_movements_def to_movement_def scenario_movement_def)
  ultimately show ?thesis using ok before ids dates by blast
qed

text \<open>
  C3 as stated fails, in both of its parts. A record without a timestamp does not sort as
  the least value: beside a record dated one second before the epoch it is published first,
  in whichever order the store delivers the two. And the order is not non-increasing by
  timestamp: the comparator reads \<open>seconds\<close> only, so of two records of the same second,
  100 and 900000000 nanoseconds into it, delivered older first, the older is published
  first.
\<close>

theorem feed_order_counterexample:
  "map id_m (movements (onSnapshot_next undated_and_old (scenario_state Type_in))) = [''a'', ''b'']
   \<and> map date (movements (onSnapshot_next undated_and_old (scenario_state Type_in)))
       = [None, Some \<lparr>seconds = - 1, nanoseconds = 0\<rparr>]
   \<and> map id_m (movements (onSnapshot_next (rev undated_and_old) (scenario_state Type_in)))
       = [''a'', ''b'']
   \<and> map id_m (movements (onSnapshot_next same_second (scenario_state Type_in))) = [''a'', ''b'']
   \<and> map date (movements (onSnapshot_next same_second (scenario_state Type_in)))
       = [Some \<lparr>seconds = 100, nanoseconds = 100\<rparr>,
          Some \<lparr>seconds = 100, nanoseconds = 900000000\<rparr>]"
  by (simp add: onSnapshot_next_def movementsData_def undated_and_old_def same_second_def
      to_movement_def scenario_movement_def compare_movements_def date_seconds_def)

text \<open>
  C5. The error callback of the subscription, and the snapshot callback when the
  \<open>data()\<close> of some document throws, publish the empty list, set \<open>loading\<close> to false and
  log the error; both callbacks return a state on every input, nothing is thrown to the
  caller.
\<close>

theorem feed_degrades_to_empty:
  "onSnapshot_error e s =
     s\<lparr>console := console s @ [(''Error in movements subscription:'', e)],
       movements := [], loading := False\<rparr>
   \<and> movements (onSnapshot_error e s) = []
   \<and> loading (onSnapshot_error e s) = False
   \<and> ((\<exists>d\<in>set docs. isl (snd d)) \<longrightarrow>
        (\<exists>e'. onSnapshot_next docs s =
           s\<lparr>console := console s @ [(''Error processing movements:'', e')],
             movements := [], loading := False\<rparr>)
        \<and> movements (onSnapshot_next docs s) = []
        \<and> loading (onSnapshot_next docs s) = False)"
proof -
  have err: "onSnapshot_error e s =
     s\<lparr>console := console s @ [(''Error in movements subscription:'', e)],
       movements := [], loading := False\<rparr>"
    by (simp add: onSnapshot_error_def)
  have thrown: "(\<exists>e'. onSnapshot_next docs s =
           s\<lparr>console := console s @ [(''Error processing movements:'', e')],
             movements := [], loading := False\<rparr>)
        \<and> movements (onSnapshot_next docs s) = []
        \<and> loading (onSnapshot_next docs s) = False"
    if bad: "\<exists>d\<in>set docs. isl (snd d)"
  proof -
    from map_docs_throws [OF bad] obtain e' where e': "map_docs docs = Inl e'" ..
    have "onSnapshot_next docs s =
           s\<lparr>console := console s @ [(''Error processing movements:'', e')],
             movements := [], loading := False\<rparr>"
      by (simp add: onSnapshot_next_def movementsData_def e')
    moreover have "movements (onSnapshot_next docs s) = []"
      and "loading (onSnapshot_next docs s) = False"
      by (simp_all add: onSnapshot_next_def movementsData_def e')
    ultimately show ?thesis by blast
  qed
  from err thrown show ?thesis by simp
qed

theorem feed_degrades_to_empty_witness:
  "(\<exists>d\<in>set one_bad_doc. isl (snd d))
   \<and> onSnapshot_next one_bad_doc (scenario_state Type_in) =
       \<lparr>movements = [], loading = False, showPasswordPrompt = True,
        selectedMovement = Some (scenario_selected Type_in), swipedMovementId = Some ''m1'',
        db = scenario_store Type_in, notifications = [],
        console = [(''Error processing movements:'', JsError ''malformed'')]\<rparr>
   \<and> movements (onSnapshot_error (JsError ''permission-denied'')
        (initial_state (scenario_store Type_in) [] [])) = []"
proof -
  have bad: "\<exists>d\<in>set one_bad_doc. isl (snd d)"
    by (simp add: one_bad_doc_def)
  have nxt: "onSnapshot_next one_bad_doc (scenario_state Type_in) =
       \<lparr>movements = [], loading = False, showPasswordPrompt = True,
        selectedMovement = Some (scenario_selected Type_in), swipedMovementId = Some ''m1'',
        db = scenario_store Type_in, notifications = [],
        console = [(''Error processing movements:'', JsError ''malformed'')]\<rparr>"
    by (simp add: onSnapshot_next_def movementsData_def one_bad_doc_def scenario_state_eq)
  from feed_degrades_to_empty [of "JsError ''permission-denied''"
      "initial_state (scenario_store Type_in) [] []" one_bad_doc]
  have "movements (onSnapshot_error (JsError ''permission-denied'')
        (initial_state (scenario_store Type_in) [] [])) = []"
    by blast
  with bad nxt show ?thesis by blast
qed

text \<open>
  C7. \<open>loading\<close> starts true, and after any sequence of events of a mounted component it
  is true exactly when no callback of the subscription, data or error, has run yet: the
  first of them sets it to false and nothing sets it back.
\<close>

theorem loading_until_first_event:
  "loading (initial_state d ns c) = True
   \<and> loading (run p (initial_state d ns c) es) = (filter subscription_event es = [])"
  by (simp add: loading_run) (simp add: initial_state_def)

theorem loading_until_first_event_witness:
  "loading (run scenario_props (initial_state (scenario_store Type_in) [] [])
      [SwipedLeft (Some ''m1''), DeleteClick (scenario_selected Type_in), PromptClose]) = True
   \<and> loading (run scenario_props (initial_state (scenario_store Type_in) [] [])
      [SwipedLeft (Some ''m1''), SubscriptionError (JsError ''permission-denied''),
       Snapshot three_docs, PromptSuccess None]) = False"
  using loading_until_first_event [of "scenario_store Type_in" "[]" "[]" scenario_props
      "[SwipedLeft (Some ''m1''), DeleteClick (scenario_selected Type_in), PromptClose]"]
    loading_until_first_event [of "scenario_store Type_in" "[]" "[]" scenario_props
      "[SwipedLeft (Some ''m1''), SubscriptionError (JsError ''permission-denied''),
       Snapshot three_docs, PromptSuccess None]"]
  by simp

section \<open>Gesture reveal state: properties\<close>




section \<open>Lifecycle of the subscription: properties\<close>

text \<open>
  C8, as the code has it. After any sequence of mounts, renders and unmounts the invariant
  holds: one listener, for the product id of the last render, while the component is
  mounted, and none when it is not. Unmounting releases the listener, mounting registers
  one for the product id, a render with another product id replaces the listener by one
  for the new id, and a render with the same product id, whatever \<open>isOpen\<close> is, leaves
  the listener as it is.
\<close>

theorem subscription_follows_mount_and_product:
  "subscription_invariant (react_run es)
   \<and> listeners (react_run (es @ [Unmount])) = []
   \<and> (rendered (react_run es) = None \<longrightarrow>
        map snd (listeners (react_run (es @ [Mount p]))) = [product_id p])
   \<and> (rendered (react_run es) \<noteq> None \<longrightarrow>
        map snd (listeners (react_run (es @ [Rerender p]))) = [product_id p]
        \<and> (\<forall>q. rendered (react_run es) = Some q \<and> product_id q = product_id p \<longrightarrow>
              listeners (react_run (es @ [Rerender p])) = listeners (react_run es)))"
proof -
  have inv: "subscription_invariant (react_run es)"
    unfolding react_run_def by (rule invariant_foldl [OF invariant_unmounted])
  have un: "listeners (react_run (es @ [Unmount])) = []"
    using inv
    by (auto simp: react_run_snoc subscription_invariant_def effect_cleanup_def
        split: option.splits)
  have mount: "map snd (listeners (react_run (es @ [Mount p]))) = [product_id p]"
    if "rendered (react_run es) = None"
    using inv that
    by (auto simp: react_run_snoc subscription_invariant_def effect_run_def
        split: option.splits)
  have rerender: "map snd (listeners (react_run (es @ [Rerender p]))) = [product_id p]
        \<and> (\<forall>q. rendered (react_run es) = Some q \<and> product_id q = product_id p \<longrightarrow>
              listeners (react_run (es @ [Rerender p])) = listeners (react_run es))"
    if "rendered (react_run es) \<noteq> None"
    using inv that
    by (auto simp: react_run_snoc subscription_invariant_def effect_run_def effect_cleanup_def
        split: option.splits)
  from inv un mount rerender show ?thesis by blast
qed

theorem subscription_follows_mount_and_product_witness:
  "rendered (react_run []) = None
   \<and> listeners (react_run ([] @ [Mount open_p1])) = [(0, ''p1'')]
   \<and> rendered (react_run [Mount open_p1]) \<noteq> None
   \<and> listeners (react_run ([Mount open_p1] @ [Rerender open_p2])) = [(1, ''p2'')]
   \<and> listeners (react_run ([Mount open_p1] @ [Rerender closed_p1])) = [(0, ''p1'')]
   \<and> listeners (react_run ([Mount open_p1, Rerender open_p2] @ [Unmount])) = []
   \<and> subscription_invariant (react_run [Mount open_p1, Rerender open_p2])"
proof -
  have a: "rendered (react_run []) = None"
    by (simp add: react_run_def unmounted_def)
  have b: "rendered (react_run [Mount open_p1]) \<noteq> None"
    by (simp add: react_run_def unmounted_def effect_run_def)
  have c: "listeners (react_run ([] @ [Mount open_p1])) = [(0, ''p1'')]"
    by (simp add: react_run_def unmounted_def effect_run_def open_p1_def)
  have d: "listeners (react_run ([Mount open_p1] @ [Rerender open_p2])) = [(1, ''p2'')]"
    by (simp add: react_run_def unmounted_def effect_run_def effect_cleanup_def open_p1_def
        open_p2_def)
  have e: "listeners (react_run ([Mount open_p1] @ [Rerender closed_p1])) = [(0, ''p1'')]"
    by (simp add: react_run_def unmounted_def effect_run_def effect_cleanup_def open_p1_def
        closed_p1_def)
  from subscription_follows_mount_and_product [of "[Mount open_p1, Rerender open_p2]" open_p1]
  have "listeners (react_run ([Mount open_p1, Rerender open_p2] @ [Unmount])) = []"
    and "subscription_invariant (react_run [Mount open_p1, Rerender open_p2])"
    by blast+
  with a b c d e show ?thesis by blast
qed

text \<open>
  C8 as stated fails: the effect depends on \<open>product.id\<close> only, and line 107 returns
  \<open>null\<close> after the hooks have run. A component rendered with \<open>isOpen\<close> false, after a
  render with \<open>isOpen\<close> true or from its mount on, shows no view and keeps its listener.
\<close>

theorem closed_view_keeps_subscription_counterexample:
  "\<not> view_open (react_run [Mount open_p1, Rerender closed_p1])
   \<and> listeners (react_run [Mount open_p1, Rerender closed_p1]) = [(0, ''p1'')]
   \<and> \<not> view_open (react_run [Mount closed_p1])
   \<and> listeners (react_run [Mount closed_p1]) = [(0, ''p1'')]"
  by (simp add: react_run_def unmounted_def effect_run_def effect_cleanup_def view_open_def
      open_p1_def closed_p1_def)

end
